theory Spec2Isabelle
  imports Complex_Main "HOL-Library.Sublist" "HOL-Library.Multiset"
begin

section \<open>BorderRelief classification and routing service: the handlers of \<^verbatim>\<open>apps/ml/main.py\<close>\<close>

subsection \<open>Strings\<close>

text \<open>
  A Python \<^verbatim>\<open>str\<close> is a sequence of code points. A description is modelled as a
  \<^typ>\<open>string\<close>, whose characters are read as the code points U+0000 to U+00FF.
  On this range \<^verbatim>\<open>str.lower()\<close> works character by character: it adds 32 to the
  capital letters \<^verbatim>\<open>A\<close> to \<^verbatim>\<open>Z\<close> (65 to 90) and to the capital letters of the
  Latin-1 block (192 to 222, the multiplication sign 215 apart), and leaves every other
  character as it is. Code points above U+00FF are outside the model.
\<close>

definition lower_chr :: "char \<Rightarrow> char" where
  "lower_chr c =
     (let n = (of_char c :: nat)
      in if (65 \<le> n \<and> n \<le> 90) \<or> (192 \<le> n \<and> n \<le> 222 \<and> n \<noteq> 215)
         then char_of (n + 32) else c)"

definition lower :: "string \<Rightarrow> string" where
  "lower s = map lower_chr s"

text \<open>
  \<^verbatim>\<open>w in desc\<close> on two strings: \<^verbatim>\<open>w\<close> occurs in \<^verbatim>\<open>desc\<close> as a contiguous
  substring.
\<close>

definition str_in :: "string \<Rightarrow> string \<Rightarrow> bool" where
  "str_in w s = sublist w s"

subsection \<open>Schemas\<close>

text \<open>
  The request schemas are the classes of the source. \<^verbatim>\<open>Optional[str] = None\<close> is a
  \<^typ>\<open>string option\<close>. \<^verbatim>\<open>List[tuple]\<close> and \<^verbatim>\<open>dict\<close> put no constraint on the
  tuples and on the mapping, so both are type parameters of the route request.
\<close>

record PredictionRequest =
  text_description :: string
  image_base64 :: "string option"

record FeedbackRequest =
  item_id :: string
  actual_category :: string
  correct :: bool

record ('t, 'd) RouteRequest =
  locations :: "'t list"
  constraints :: 'd

text \<open>
  The handlers return dictionary literals. Each literal is a record with one field for
  each key; \<^verbatim>\<open>risk_reason\<close> is a key of the \<^verbatim>\<open>MEDS\<close> literal only, so the field is
  optional and \<open>None\<close> stands for the absent key. The float literals are returned as
  written and take part in no arithmetic: they are the decimal numbers they denote.
\<close>

record RouteResult =
  route_id :: string
  waypoints_order :: "int list"
  total_distance_km :: real
  estimated_time_min :: int
  explanation :: string

record PredictionResult =
  category :: string
  confidence :: real
  explanation :: string
  risk_flag :: bool
  risk_reason :: "string option"

subsection \<open>Endpoints\<close>

definition health :: "(string \<times> string) list" where
  "health = [(''status'', ''ok''), (''version'', ''1.0.0'')]"

definition predict_category :: "PredictionRequest \<Rightarrow> PredictionResult" where
  "predict_category req =
     (let desc = lower (text_description req)
      in if list_ex (\<lambda>w. str_in w desc) [''water'', ''bottle'', ''drink''] then
           \<lparr>category = ''WATER'',
            confidence = 0.98,
            explanation = ''Detected keyword 'water' in description.'',
            risk_flag = False,
            risk_reason = None\<rparr>
         else if list_ex (\<lambda>w. str_in w desc) [''pill'', ''drug'', ''medicine'', ''bandage''] then
           \<lparr>category = ''MEDS'',
            confidence = 0.92,
            explanation = ''Detected medical terminology.'',
            risk_flag = True,
            risk_reason = Some ''Medical items require expiry check.''\<rparr>
         else
           \<lparr>category = ''OTHER'',
            confidence = 0.45,
            explanation = ''No strong keywords found. Manual review recommended.'',
            risk_flag = False,
            risk_reason = None\<rparr>)"

definition optimize_route :: "('t, 'd) RouteRequest \<Rightarrow> RouteResult" where
  "optimize_route req =
     \<lparr>route_id = ''route-123'',
      waypoints_order = [0, 2, 1, 3],
      total_distance_km = 45.2,
      estimated_time_min = 120,
      RouteResult.explanation = ''Route optimized to avoid Sector 4 (Red Zone).''\<rparr>"

text \<open>
  \<^verbatim>\<open>log_feedback\<close> is the one handler with an effect: it prints a line. The process
  output is the state of the service, a list of printed lines. The text of
  \<^verbatim>\<open>{req}\<close> in the f-string is produced by the schema library, so the rendering of a
  feedback request is a parameter.
\<close>

record world =
  stdout :: "string list"

definition log_feedback ::
  "(FeedbackRequest \<Rightarrow> string) \<Rightarrow> FeedbackRequest \<Rightarrow> world \<Rightarrow> (string \<times> string) list \<times> world" where
  "log_feedback str_of req w =
     ([(''status'', ''logged'')],
      w\<lparr>stdout := stdout w @ [''Feedback Received: '' @ str_of req]\<rparr>)"

text \<open>
  The routes registered on \<^verbatim>\<open>app\<close>. A request that reaches a handler has passed the
  validation of its schema, which the web framework runs before the handler; that
  validation is no code of this service. A handler without a statement that prints or
  writes leaves the state as it is.
\<close>

datatype ('t, 'd) request =
    GET_health
  | POST_predict_category PredictionRequest
  | POST_ml_feedback FeedbackRequest
  | POST_optimize_route "('t, 'd) RouteRequest"

datatype response =
    Status "(string \<times> string) list"
  | Prediction PredictionResult
  | Route RouteResult

fun app :: "(FeedbackRequest \<Rightarrow> string) \<Rightarrow> ('t, 'd) request \<Rightarrow> world \<Rightarrow> response \<times> world" where
  "app str_of GET_health w = (Status health, w)"
| "app str_of (POST_predict_category req) w = (Prediction (predict_category req), w)"
| "app str_of (POST_ml_feedback req) w =
     (case log_feedback str_of req w of (r, w') \<Rightarrow> (Status r, w'))"
| "app str_of (POST_optimize_route req) w = (Route (optimize_route req), w)"

subsection \<open>Predicates of the properties\<close>

text \<open>
  A keyword occurs in a description without regard to case when some contiguous piece of
  the description is equal to the keyword once both are lowercased.
\<close>

definition occurs_ci :: "string \<Rightarrow> string \<Rightarrow> bool" where
  "occurs_ci w d = list_ex (\<lambda>t. lower t = lower w) (sublists d)"

text \<open>
  A visiting order is a permutation of the indices of \<open>n\<close> locations when it holds each
  of \<open>0, \<dots>, n - 1\<close> once and nothing else.
\<close>

definition is_index_permutation :: "int list \<Rightarrow> nat \<Rightarrow> bool" where
  "is_index_permutation order n = (mset order = mset (map int [0..<n]))"

section \<open>Properties\<close>

subsection \<open>Lowercasing and substrings\<close>

lemmas lower_eval = lower_def lower_chr_def char_of_def bit_0 Let_def

lemmas str_in_eval = str_in_def sublist_code

lemma map_sublist_preimage:
  assumes "sublist ys (map f xs)"
  shows "\<exists>t. sublist t xs \<and> map f t = ys"
proof -
  from assms obtain ps ss where "map f xs = ps @ (ys @ ss)"
    by (auto simp: sublist_def)
  then obtain x1 x2 where x: "xs = x1 @ x2" "ps = map f x1" "ys @ ss = map f x2"
    unfolding map_eq_append_conv by blast
  from x(3) obtain t x3 where t: "x2 = t @ x3" "map f t = ys"
    unfolding append_eq_map_conv by blast
  with x have "xs = x1 @ t @ x3" by simp
  then have "sublist t xs" by (auto simp: sublist_def)
  with t show ?thesis by blast
qed

text \<open>
  The test of the source, a substring test on the lowercased description, decides
  exactly the occurrence of the keyword without regard to case.
\<close>

lemma occurs_ci_iff: "occurs_ci w d \<longleftrightarrow> str_in (lower w) (lower d)"
proof
  assume "occurs_ci w d"
  then obtain t where "sublist t d" "lower t = lower w"
    by (auto simp: occurs_ci_def list_ex_iff)
  then show "str_in (lower w) (lower d)"
    unfolding str_in_def lower_def by (metis map_mono_sublist)
next
  assume "str_in (lower w) (lower d)"
  then have "sublist (map lower_chr w) (map lower_chr d)"
    by (simp add: str_in_def lower_def)
  from map_sublist_preimage [OF this]
  show "occurs_ci w d"
    by (auto simp: occurs_ci_def list_ex_iff lower_def)
qed

lemma lower_keywords:
  "lower ''water'' = ''water''" "lower ''bottle'' = ''bottle''" "lower ''drink'' = ''drink''"
  "lower ''pill'' = ''pill''" "lower ''drug'' = ''drug''" "lower ''medicine'' = ''medicine''"
  "lower ''bandage'' = ''bandage''"
  by (simp_all add: lower_eval)

lemma water_test:
  "list_ex (\<lambda>w. str_in w (lower d)) [''water'', ''bottle'', ''drink''] \<longleftrightarrow>
     occurs_ci ''water'' d \<or> occurs_ci ''bottle'' d \<or> occurs_ci ''drink'' d"
  by (simp add: occurs_ci_iff lower_keywords)

lemma meds_test:
  "list_ex (\<lambda>w. str_in w (lower d)) [''pill'', ''drug'', ''medicine'', ''bandage''] \<longleftrightarrow>
     occurs_ci ''pill'' d \<or> occurs_ci ''drug'' d \<or> occurs_ci ''medicine'' d
       \<or> occurs_ci ''bandage'' d"
  by (simp add: occurs_ci_iff lower_keywords)

lemma fixed_order_permutation_iff: "is_index_permutation [0, 2, 1, 3] n \<longleftrightarrow> n = 4"
proof
  assume "is_index_permutation [0, 2, 1, 3] n"
  then have "size (mset [0, 2, 1, 3::int]) = size (mset (map int [0..<n]))"
    by (simp only: is_index_permutation_def)
  then show "n = 4" by simp
next
  assume "n = 4"
  then have "[0..<n] = [0, 1, 2, 3]" by (simp add: upt_rec)
  then show "is_index_permutation [0, 2, 1, 3] n"
    by (simp add: is_index_permutation_def)
qed

subsection \<open>Classification\<close>

text \<open>
  C1: a description in which a WATER keyword (\<^verbatim>\<open>water\<close>, \<^verbatim>\<open>bottle\<close>, \<^verbatim>\<open>drink\<close>) and
  a MEDS keyword (\<^verbatim>\<open>pill\<close>, \<^verbatim>\<open>drug\<close>, \<^verbatim>\<open>medicine\<close>, \<^verbatim>\<open>bandage\<close>) both occur,
  without regard to case, is classified \<^verbatim>\<open>WATER\<close> with confidence 0.98: the WATER check
  comes first.
\<close>

theorem water_checked_before_meds:
  assumes "occurs_ci ''water'' (text_description req)
           \<or> occurs_ci ''bottle'' (text_description req)
           \<or> occurs_ci ''drink'' (text_description req)"
      and "occurs_ci ''pill'' (text_description req)
           \<or> occurs_ci ''drug'' (text_description req)
           \<or> occurs_ci ''medicine'' (text_description req)
           \<or> occurs_ci ''bandage'' (text_description req)"
  shows "category (predict_category req) = ''WATER''
         \<and> confidence (predict_category req) = 0.98"
  using assms(1) unfolding predict_category_def Let_def water_test meds_test by simp

theorem water_checked_before_meds_witness:
  "(occurs_ci ''water'' ''2L Bottle of Medicine'' \<or> occurs_ci ''bottle'' ''2L Bottle of Medicine''
      \<or> occurs_ci ''drink'' ''2L Bottle of Medicine'')
   \<and> (occurs_ci ''pill'' ''2L Bottle of Medicine'' \<or> occurs_ci ''drug'' ''2L Bottle of Medicine''
      \<or> occurs_ci ''medicine'' ''2L Bottle of Medicine''
      \<or> occurs_ci ''bandage'' ''2L Bottle of Medicine'')
   \<and> category (predict_category
        \<lparr>text_description = ''2L Bottle of Medicine'', image_base64 = None\<rparr>) = ''WATER''
   \<and> confidence (predict_category
        \<lparr>text_description = ''2L Bottle of Medicine'', image_base64 = None\<rparr>) = 0.98"
proof -
  have l: "lower ''2L Bottle of Medicine'' = ''2l bottle of medicine''"
    by (simp add: lower_eval)
  have w: "occurs_ci ''bottle'' ''2L Bottle of Medicine''"
    by (simp add: occurs_ci_iff lower_keywords l str_in_eval)
  have m: "occurs_ci ''medicine'' ''2L Bottle of Medicine''"
    by (simp add: occurs_ci_iff lower_keywords l str_in_eval)
  show ?thesis
    using w m water_checked_before_meds
      [of "\<lparr>text_description = ''2L Bottle of Medicine'', image_base64 = None\<rparr>"]
    by simp
qed

text \<open>
  C4: a description in which a WATER keyword occurs and no MEDS keyword does is classified
  \<^verbatim>\<open>WATER\<close> with confidence 0.98 and no risk flag.
\<close>

theorem water_only:
  assumes "occurs_ci ''water'' (text_description req)
           \<or> occurs_ci ''bottle'' (text_description req)
           \<or> occurs_ci ''drink'' (text_description req)"
      and "\<not> (occurs_ci ''pill'' (text_description req)
           \<or> occurs_ci ''drug'' (text_description req)
           \<or> occurs_ci ''medicine'' (text_description req)
           \<or> occurs_ci ''bandage'' (text_description req))"
  shows "category (predict_category req) = ''WATER''
         \<and> confidence (predict_category req) = 0.98
         \<and> risk_flag (predict_category req) = False"
  using assms(1) unfolding predict_category_def Let_def water_test meds_test by simp

theorem water_only_witness:
  "(occurs_ci ''water'' ''Drinking WATER 6-pack'' \<or> occurs_ci ''bottle'' ''Drinking WATER 6-pack''
      \<or> occurs_ci ''drink'' ''Drinking WATER 6-pack'')
   \<and> \<not> (occurs_ci ''pill'' ''Drinking WATER 6-pack'' \<or> occurs_ci ''drug'' ''Drinking WATER 6-pack''
      \<or> occurs_ci ''medicine'' ''Drinking WATER 6-pack''
      \<or> occurs_ci ''bandage'' ''Drinking WATER 6-pack'')
   \<and> category (predict_category
        \<lparr>text_description = ''Drinking WATER 6-pack'', image_base64 = None\<rparr>) = ''WATER''
   \<and> confidence (predict_category
        \<lparr>text_description = ''Drinking WATER 6-pack'', image_base64 = None\<rparr>) = 0.98
   \<and> risk_flag (predict_category
        \<lparr>text_description = ''Drinking WATER 6-pack'', image_base64 = None\<rparr>) = False"
proof -
  have l: "lower ''Drinking WATER 6-pack'' = ''drinking water 6-pack''"
    by (simp add: lower_eval)
  have w: "occurs_ci ''water'' ''Drinking WATER 6-pack''"
    by (simp add: occurs_ci_iff lower_keywords l str_in_eval)
  have m: "\<not> (occurs_ci ''pill'' ''Drinking WATER 6-pack''
      \<or> occurs_ci ''drug'' ''Drinking WATER 6-pack''
      \<or> occurs_ci ''medicine'' ''Drinking WATER 6-pack''
      \<or> occurs_ci ''bandage'' ''Drinking WATER 6-pack'')"
    by (simp add: occurs_ci_iff lower_keywords l str_in_eval)
  show ?thesis
    using w m water_only
      [of "\<lparr>text_description = ''Drinking WATER 6-pack'', image_base64 = None\<rparr>"]
    by simp
qed

text \<open>
  C5: a description in which a MEDS keyword occurs and no WATER keyword does is classified
  \<^verbatim>\<open>MEDS\<close> with confidence 0.92, with the risk flag set and with the risk reason
  \<^verbatim>\<open>Medical items require expiry check.\<close>, which is not empty.
\<close>

theorem meds_only:
  assumes "occurs_ci ''pill'' (text_description req)
           \<or> occurs_ci ''drug'' (text_description req)
           \<or> occurs_ci ''medicine'' (text_description req)
           \<or> occurs_ci ''bandage'' (text_description req)"
      and "\<not> (occurs_ci ''water'' (text_description req)
           \<or> occurs_ci ''bottle'' (text_description req)
           \<or> occurs_ci ''drink'' (text_description req))"
  shows "category (predict_category req) = ''MEDS''
         \<and> confidence (predict_category req) = 0.92
         \<and> risk_flag (predict_category req) = True
         \<and> risk_reason (predict_category req) = Some ''Medical items require expiry check.''
         \<and> the (risk_reason (predict_category req)) \<noteq> []"
  using assms unfolding predict_category_def Let_def water_test meds_test by simp

theorem meds_only_witness:
  "(occurs_ci ''pill'' ''Box of Bandages, PILLS'' \<or> occurs_ci ''drug'' ''Box of Bandages, PILLS''
      \<or> occurs_ci ''medicine'' ''Box of Bandages, PILLS''
      \<or> occurs_ci ''bandage'' ''Box of Bandages, PILLS'')
   \<and> \<not> (occurs_ci ''water'' ''Box of Bandages, PILLS''
      \<or> occurs_ci ''bottle'' ''Box of Bandages, PILLS''
      \<or> occurs_ci ''drink'' ''Box of Bandages, PILLS'')
   \<and> category (predict_category
        \<lparr>text_description = ''Box of Bandages, PILLS'', image_base64 = None\<rparr>) = ''MEDS''
   \<and> confidence (predict_category
        \<lparr>text_description = ''Box of Bandages, PILLS'', image_base64 = None\<rparr>) = 0.92
   \<and> risk_flag (predict_category
        \<lparr>text_description = ''Box of Bandages, PILLS'', image_base64 = None\<rparr>) = True
   \<and> risk_reason (predict_category
        \<lparr>text_description = ''Box of Bandages, PILLS'', image_base64 = None\<rparr>)
       = Some ''Medical items require expiry check.''"
proof -
  have l: "lower ''Box of Bandages, PILLS'' = ''box of bandages, pills''"
    by (simp add: lower_eval)
  have m: "occurs_ci ''pill'' ''Box of Bandages, PILLS''"
    by (simp add: occurs_ci_iff lower_keywords l str_in_eval)
  have w: "\<not> (occurs_ci ''water'' ''Box of Bandages, PILLS''
      \<or> occurs_ci ''bottle'' ''Box of Bandages, PILLS''
      \<or> occurs_ci ''drink'' ''Box of Bandages, PILLS'')"
    by (simp add: occurs_ci_iff lower_keywords l str_in_eval)
  show ?thesis
    using w m meds_only
      [of "\<lparr>text_description = ''Box of Bandages, PILLS'', image_base64 = None\<rparr>"]
    by simp
qed

text \<open>
  C6: a description in which neither a WATER keyword nor a MEDS keyword occurs is
  classified \<^verbatim>\<open>OTHER\<close> with confidence 0.45 and no risk flag.
\<close>

theorem no_keyword:
  assumes "\<not> (occurs_ci ''water'' (text_description req)
           \<or> occurs_ci ''bottle'' (text_description req)
           \<or> occurs_ci ''drink'' (text_description req))"
      and "\<not> (occurs_ci ''pill'' (text_description req)
           \<or> occurs_ci ''drug'' (text_description req)
           \<or> occurs_ci ''medicine'' (text_description req)
           \<or> occurs_ci ''bandage'' (text_description req))"
  shows "category (predict_category req) = ''OTHER''
         \<and> confidence (predict_category req) = 0.45
         \<and> risk_flag (predict_category req) = False"
  using assms unfolding predict_category_def Let_def water_test meds_test by simp

theorem no_keyword_witness:
  "\<not> (occurs_ci ''water'' ''Rice 5kg (WAT-3R)'' \<or> occurs_ci ''bottle'' ''Rice 5kg (WAT-3R)''
      \<or> occurs_ci ''drink'' ''Rice 5kg (WAT-3R)'')
   \<and> \<not> (occurs_ci ''pill'' ''Rice 5kg (WAT-3R)'' \<or> occurs_ci ''drug'' ''Rice 5kg (WAT-3R)''
      \<or> occurs_ci ''medicine'' ''Rice 5kg (WAT-3R)'' \<or> occurs_ci ''bandage'' ''Rice 5kg (WAT-3R)'')
   \<and> category (predict_category
        \<lparr>text_description = ''Rice 5kg (WAT-3R)'', image_base64 = None\<rparr>) = ''OTHER''
   \<and> confidence (predict_category
        \<lparr>text_description = ''Rice 5kg (WAT-3R)'', image_base64 = None\<rparr>) = 0.45
   \<and> risk_flag (predict_category
        \<lparr>text_description = ''Rice 5kg (WAT-3R)'', image_base64 = None\<rparr>) = False"
proof -
  have l: "lower ''Rice 5kg (WAT-3R)'' = ''rice 5kg (wat-3r)''"
    by (simp add: lower_eval)
  have w: "\<not> (occurs_ci ''water'' ''Rice 5kg (WAT-3R)'' \<or> occurs_ci ''bottle'' ''Rice 5kg (WAT-3R)''
      \<or> occurs_ci ''drink'' ''Rice 5kg (WAT-3R)'')"
    by (simp add: occurs_ci_iff lower_keywords l str_in_eval)
  have m: "\<not> (occurs_ci ''pill'' ''Rice 5kg (WAT-3R)'' \<or> occurs_ci ''drug'' ''Rice 5kg (WAT-3R)''
      \<or> occurs_ci ''medicine'' ''Rice 5kg (WAT-3R)'' \<or> occurs_ci ''bandage'' ''Rice 5kg (WAT-3R)'')"
    by (simp add: occurs_ci_iff lower_keywords l str_in_eval)
  show ?thesis
    using w m no_keyword
      [of "\<lparr>text_description = ''Rice 5kg (WAT-3R)'', image_base64 = None\<rparr>"]
    by simp
qed

text \<open>
  C10: whenever the category is \<^verbatim>\<open>WATER\<close>, the explanation is the fixed text
  \<^verbatim>\<open>Detected keyword 'water' in description.\<close>, also when the description holds
  \<^verbatim>\<open>bottle\<close> or \<^verbatim>\<open>drink\<close> and not \<^verbatim>\<open>water\<close>.
\<close>

theorem water_explanation_fixed:
  assumes "category (predict_category req) = ''WATER''"
  shows "explanation (predict_category req) = ''Detected keyword 'water' in description.''"
  using assms unfolding predict_category_def Let_def by (simp split: if_splits)

theorem water_explanation_fixed_witness:
  "category (predict_category \<lparr>text_description = ''Empty BOTTLE'', image_base64 = None\<rparr>)
     = ''WATER''
   \<and> \<not> occurs_ci ''water'' ''Empty BOTTLE''
   \<and> explanation (predict_category \<lparr>text_description = ''Empty BOTTLE'', image_base64 = None\<rparr>)
     = ''Detected keyword 'water' in description.''"
proof -
  have l: "lower ''Empty BOTTLE'' = ''empty bottle''"
    by (simp add: lower_eval)
  have c: "category (predict_category \<lparr>text_description = ''Empty BOTTLE'', image_base64 = None\<rparr>)
     = ''WATER''"
    by (simp add: predict_category_def Let_def l str_in_eval)
  have n: "\<not> occurs_ci ''water'' ''Empty BOTTLE''"
    by (simp add: occurs_ci_iff lower_keywords l str_in_eval)
  show ?thesis
    using c n water_explanation_fixed [OF c] by simp
qed

text \<open>
  C7: the response of \<^verbatim>\<open>predict_category\<close> is a function of the description alone. Two
  requests with the same description and any images get the same response, whatever the
  state of the service, and the handler leaves that state as it found it.
\<close>

theorem predict_category_pure:
  assumes "text_description r1 = text_description r2"
  shows "predict_category r1 = predict_category r2
         \<and> fst (app str_of (POST_predict_category r1) w1)
             = fst (app str_of (POST_predict_category r2) w2)
         \<and> snd (app str_of (POST_predict_category r1) w1) = w1"
  using assms by (simp add: predict_category_def)

theorem predict_category_pure_witness:
  "text_description \<lparr>text_description = ''Bandage roll'', image_base64 = None\<rparr>
     = text_description \<lparr>text_description = ''Bandage roll'', image_base64 = Some ''aGVsbG8=''\<rparr>
   \<and> predict_category \<lparr>text_description = ''Bandage roll'', image_base64 = None\<rparr>
     = predict_category \<lparr>text_description = ''Bandage roll'', image_base64 = Some ''aGVsbG8=''\<rparr>
   \<and> snd (app (\<lambda>r. item_id r)
       (POST_predict_category \<lparr>text_description = ''Bandage roll'', image_base64 = None\<rparr>
          :: (real \<times> real, (string \<times> string) list) request)
       \<lparr>stdout = [''Feedback Received: a'']\<rparr>) = \<lparr>stdout = [''Feedback Received: a'']\<rparr>"
proof -
  have h: "text_description \<lparr>text_description = ''Bandage roll'', image_base64 = None\<rparr>
     = text_description \<lparr>text_description = ''Bandage roll'', image_base64 = Some ''aGVsbG8=''\<rparr>"
    by simp
  from predict_category_pure [OF h, of "\<lambda>r. item_id r" "\<lparr>stdout = [''Feedback Received: a'']\<rparr>"]
  show ?thesis using h by simp
qed

subsection \<open>Route optimisation\<close>

text \<open>
  C2: \<^verbatim>\<open>optimize_route\<close> returns the same fixed response for every request: route id
  \<^verbatim>\<open>route-123\<close>, order \<^verbatim>\<open>[0, 2, 1, 3]\<close>, distance 45.2, time 120 and an explanation
  that names \<^verbatim>\<open>Sector 4 (Red Zone)\<close>. The response of one request is the response of
  any other, whatever their locations and constraints.
\<close>

theorem optimize_route_fixed:
  "route_id (optimize_route req) = ''route-123''
   \<and> waypoints_order (optimize_route req) = [0, 2, 1, 3]
   \<and> total_distance_km (optimize_route req) = 45.2
   \<and> estimated_time_min (optimize_route req) = 120
   \<and> str_in ''Sector 4 (Red Zone)'' (RouteResult.explanation (optimize_route req))
   \<and> optimize_route req = optimize_route req'"
  by (simp add: optimize_route_def str_in_eval)

text \<open>
  C3, as stated: the order returned is a permutation of the indices of the locations of
  the request. It is not for a request with two locations, where the order names the
  indices 2 and 3.
\<close>

theorem waypoints_permutation_counterexample:
  "\<not> is_index_permutation
       (waypoints_order (optimize_route
          \<lparr>locations = [(13.7 :: real, 100.5 :: real), (14.0, 100.6)],
           constraints = ([] :: (string \<times> string) list)\<rparr>))
       (length [(13.7 :: real, 100.5 :: real), (14.0, 100.6)])"
  by (simp add: optimize_route_def fixed_order_permutation_iff)

text \<open>
  C3, amended: the order returned is always \<^verbatim>\<open>[0, 2, 1, 3]\<close>, and it is a permutation
  of the indices of the locations of the request exactly when the request has four
  locations.
\<close>

theorem waypoints_permutation_iff_four:
  "waypoints_order (optimize_route req) = [0, 2, 1, 3]
   \<and> (is_index_permutation (waypoints_order (optimize_route req)) (length (locations req))
        \<longleftrightarrow> length (locations req) = 4)"
  by (simp add: optimize_route_def fixed_order_permutation_iff)

theorem waypoints_permutation_iff_four_witness:
  "length (locations
      \<lparr>locations = [(13.7 :: real, 100.5 :: real), (14.0, 100.6), (14.2, 100.1), (13.9, 100.9)],
       constraints = ([] :: (string \<times> string) list)\<rparr>) = 4
   \<and> is_index_permutation
       (waypoints_order (optimize_route
          \<lparr>locations = [(13.7 :: real, 100.5 :: real), (14.0, 100.6), (14.2, 100.1), (13.9, 100.9)],
           constraints = ([] :: (string \<times> string) list)\<rparr>))
       (length (locations
          \<lparr>locations = [(13.7 :: real, 100.5 :: real), (14.0, 100.6), (14.2, 100.1), (13.9, 100.9)],
           constraints = ([] :: (string \<times> string) list)\<rparr>))"
proof -
  have h: "length (locations
      \<lparr>locations = [(13.7 :: real, 100.5 :: real), (14.0, 100.6), (14.2, 100.1), (13.9, 100.9)],
       constraints = ([] :: (string \<times> string) list)\<rparr>) = 4"
    by simp
  show ?thesis
    using h waypoints_permutation_iff_four
      [of "\<lparr>locations = [(13.7 :: real, 100.5 :: real), (14.0, 100.6), (14.2, 100.1), (13.9, 100.9)],
             constraints = ([] :: (string \<times> string) list)\<rparr>"]
    by blast
qed

end
